theory Spec2Isabelle
  imports Main "HOL-Library.Word"
begin

section \<open>Promises and the retry policy (\<open>retryPromiseIfNeeded\<close>)\<close>

text \<open>
  A JavaScript promise, once awaited, has resolved with a value, has rejected with an
  error, or never settles. An action (the \<open>fn\<close> of the source, "a function, which when
  called returns a promise") is a state transformer that yields the settled promise; the
  state stands for everything the action can touch.
\<close>

datatype ('e, 'a) promise = Resolved 'a | Rejected 'e | Pending

type_synonym ('s, 'e, 'a) action = "'s \<Rightarrow> ('e, 'a) promise \<times> 's"

text \<open>
  The failure callback is an ordinary synchronous call \<open>failedAttemptCb(err)\<close>: it either
  returns (whatever it returns is discarded, a promise included) or throws.
\<close>

datatype cb_return = Returned | Threw

type_synonym ('s, 'e) callback = "'e \<Rightarrow> 's \<Rightarrow> cb_return \<times> 's"

text \<open>
  The invocations made by one retry execution, in the order they are made: each call
  \<open>fn()\<close> with what its promise settled to, and each call \<open>failedAttemptCb(err)\<close>.
\<close>

datatype ('e, 'a) invocation =
    is_Fn: Fn_invoked "('e, 'a) promise"
  | is_Cb: Cb_invoked 'e

text \<open>\<open>if (failedAttemptCb) { failedAttemptCb(err); }\<close>\<close>

definition call_failedAttemptCb ::
  "('s, 'e) callback option \<Rightarrow> 'e \<Rightarrow> 's \<Rightarrow> cb_return \<times> ('e, 'a) invocation list \<times> 's" where
  "call_failedAttemptCb failedAttemptCb err s =
     (case failedAttemptCb of
        None \<Rightarrow> (Returned, [], s)
      | Some cb \<Rightarrow> (case cb err s of (r, s') \<Rightarrow> (r, [Cb_invoked err], s')))"

text \<open>
  The closure \<open>attemptPromise\<close>, with the captured variable \<open>attempt\<close> as an argument.
  A resolved \<open>fn()\<close> resolves the outer promise. A rejected one rejects it when
  \<open>attempt >= maxTries\<close>; otherwise \<open>attempt\<close> is incremented, the callback is called and
  \<open>attemptPromise\<close> runs again. A callback that throws does so inside the \<open>catch\<close>
  handler: \<open>attemptPromise()\<close> on the next line is not reached and neither \<open>resolve\<close> nor
  \<open>reject\<close> is ever called, so the outer promise stays pending.
\<close>

function attemptPromise ::
  "('s, 'e, 'a) action \<Rightarrow> ('s, 'e) callback option \<Rightarrow> int \<Rightarrow> int \<Rightarrow> 's
     \<Rightarrow> ('e, 'a) promise \<times> ('e, 'a) invocation list \<times> 's" where
  "attemptPromise fn failedAttemptCb maxTries attempt s =
     (case fn s of
        (Resolved result, s1) \<Rightarrow> (Resolved result, [Fn_invoked (Resolved result)], s1)
      | (Pending, s1) \<Rightarrow> (Pending, [Fn_invoked Pending], s1)
      | (Rejected err, s1) \<Rightarrow>
          if attempt \<ge> maxTries then (Rejected err, [Fn_invoked (Rejected err)], s1)
          else (case call_failedAttemptCb failedAttemptCb err s1 of
                  (Threw, evs, s2) \<Rightarrow> (Pending, Fn_invoked (Rejected err) # evs, s2)
                | (Returned, evs, s2) \<Rightarrow>
                    (case attemptPromise fn failedAttemptCb maxTries (attempt + 1) s2 of
                       (r, tr, s3) \<Rightarrow> (r, Fn_invoked (Rejected err) # evs @ tr, s3))))"
  by pat_completeness auto
termination
  by (relation "measure (\<lambda>(fn, cb, maxTries, attempt, s). nat (maxTries - attempt))") auto

declare attemptPromise.simps [simp del]

text \<open>
  \<open>retryPromiseIfNeeded(fn, failedAttemptCb, maxTries = 5)\<close>: \<open>let attempt = 1\<close>, then the
  first \<open>attemptPromise()\<close>. An omitted \<open>maxTries\<close> is \<open>None\<close>.
\<close>

definition retryPromiseIfNeeded ::
  "('s, 'e, 'a) action \<Rightarrow> ('s, 'e) callback option \<Rightarrow> int option \<Rightarrow> 's
     \<Rightarrow> ('e, 'a) promise \<times> ('e, 'a) invocation list \<times> 's" where
  "retryPromiseIfNeeded fn failedAttemptCb maxTries s =
     attemptPromise fn failedAttemptCb (case maxTries of None \<Rightarrow> 5 | Some n \<Rightarrow> n) 1 s"

section \<open>Test fixtures for the retry policy\<close>

text \<open>
  An action over an invocation counter that rejects its first \<open>j\<close> invocations and
  resolves afterwards, a callback that returns and a callback that throws.
\<close>

definition flaky_action :: "nat \<Rightarrow> (nat, string, string) action" where
  "flaky_action j = (\<lambda>s. (if s < j then Rejected ''boom'' else Resolved ''ok'', Suc s))"

definition quiet_cb :: "(nat, string) callback" where
  "quiet_cb = (\<lambda>err s. (Returned, s))"

definition throwing_cb :: "(nat, string) callback" where
  "throwing_cb = (\<lambda>err s. (Threw, s))"

text \<open>
  The invocations of \<open>j\<close> failed attempts, each followed by its callback:
  \<open>fn()\<close> rejected with \<open>errs i\<close>, then \<open>failedAttemptCb(errs i)\<close>.
\<close>

definition failed_rounds :: "(nat \<Rightarrow> 'e) \<Rightarrow> nat \<Rightarrow> ('e, 'a) invocation list" where
  "failed_rounds errs j = concat (map (\<lambda>i. [Fn_invoked (Rejected (errs i)), Cb_invoked (errs i)]) [0..<j])"

section \<open>The outside world of the installer\<close>

text \<open>
  Everything \<open>bin/setup.js\<close> does is a call to something outside it: the console, the
  spinner, the prompt, the docker-machine provider, an ssh session, a local shell, the
  random source, \<open>process.exit\<close>. The world is the log of those calls in the order they
  are issued. What a call answers is decided by the environment, which sees the log so
  far; this covers any deterministic provider, host and operator. Strings are lists of
  8-bit characters.
\<close>

type_synonym error = string

datatype event =
    Console_clear
  | Console_log string
  | Ora_start string
  | Ora_succeed string
  | Ora_fail string
  | Readline_question string
  | Machine_create string string
  | Machine_inspect string
  | Machine_ssh string string
  | Spawn_sync string
  | Random_bytes nat
  | Process_exit

text \<open>
  \<open>Machine_create name token\<close> is \<open>DockerMachine.create(name, 'digitalocean',
  {'digitalocean-access-token': token}, cb)\<close>, \<open>Machine_inspect name\<close> is
  \<open>new DockerMachine(name).inspect(cb)\<close>, \<open>Machine_ssh name command\<close> is
  \<open>machine.ssh(command, cb)\<close> on the machine of that name, \<open>Spawn_sync command\<close> is
  \<open>spawnSync(command, [], { shell: true })\<close> on the operator's own machine.
  \<open>Ora_succeed text\<close> and \<open>Ora_fail text\<close> carry the text of the spinner they stop.
  \<open>color.magenta\<close> and \<open>table\<close> are library functions on strings, taken as given.
\<close>

record env =
  question_reply :: "event list \<Rightarrow> string \<Rightarrow> string"
  create_reply :: "event list \<Rightarrow> string \<Rightarrow> string \<Rightarrow> error option"
  inspect_reply :: "event list \<Rightarrow> string \<Rightarrow> error + string"
  ssh_reply :: "event list \<Rightarrow> string \<Rightarrow> string \<Rightarrow> error + string"
  spawn_reply :: "event list \<Rightarrow> string \<Rightarrow> int"
  random_reply :: "event list \<Rightarrow> nat \<Rightarrow> 8 word"
  color_magenta :: "string \<Rightarrow> string"
  table :: "string list list \<Rightarrow> string"

definition MOTHERSHIP_LOGO :: string where
  \<open>MOTHERSHIP_LOGO =
     ''                   `:shmNmmmdhs:`\<newline>''
     @ ''                 `sNNs:.    .:sNNo`\<newline>''
     @ ''                :mMh` .:.  .-. `yMm-\<newline>''
     @ ''               .NMN..:NMN::NMN:..NMN.\<newline>''
     @ ''          `....sNNmdddmmmddmmmdddmNNs....`\<newline>''
     @ ''         +yyyyyyyyyyhhyhhyyhhyhhyhyyyyyyyy/\<newline>''
     @ ''         `+dMmNMmNMNNMNNMNNMmNMNNMmmMNmMd+`\<newline>''
     @ ''           `/ssyyssyyhhyhyyhyhhyyssyyss/`\<newline>''
     @ ''                   `+hmNNNNNNmh+`\<newline>''
     @ ''  __  __  ___ _____ _  _ ___ ___  ___ _  _ ___ ___\<newline>''
     @ '' |  '' @ [CHR 0x5C] @ ''/  |/ _ '' @ [CHR 0x5C] @ ''_   _| || | __| _ '' @ [CHR 0x5C] @ ''/ __| || |_ _| _ '' @ [CHR 0x5C] @ ''\<newline>''
     @ '' | |'' @ [CHR 0x5C] @ ''/| | (_) || | | __ | _||   /'' @ [CHR 0x5C] @ ''__ '' @ [CHR 0x5C] @ '' __ || ||  _/\<newline>''
     @ '' |_|  |_|'' @ [CHR 0x5C] @ ''___/ |_| |_||_|___|_|_'' @ [CHR 0x5C] @ ''|___/_||_|___|_|''\<close>

definition MOTHERSHIP_NODE_NAME :: string where
  \<open>MOTHERSHIP_NODE_NAME = ''mothership-paas''\<close>

definition SWARM_MANAGER_NODE_NAME :: string where
  \<open>SWARM_MANAGER_NODE_NAME = ''mothership-swarm''\<close>

subsection \<open>\<open>dockerComposeContent\<close>\<close>

text \<open>
  \<open>crypto.randomBytes(n)\<close> returns a buffer of exactly \<open>n\<close> bytes; \<open>random_reply\<close> gives
  the byte at each index. \<open>buf.toString('hex')\<close> writes each byte as two lower-case
  hexadecimal digits.
\<close>

definition randomBytes :: "env \<Rightarrow> nat \<Rightarrow> event list \<Rightarrow> 8 word list \<times> event list" where
  "randomBytes env n w = (map (random_reply env w) [0..<n], w @ [Random_bytes n])"

definition hex_digit :: "nat \<Rightarrow> char" where
  "hex_digit d = ''0123456789abcdef'' ! d"

definition toString_hex :: "8 word list \<Rightarrow> string" where
  "toString_hex buf =
     concat (map (\<lambda>b. [hex_digit (unat b div 16), hex_digit (unat b mod 16)]) buf)"

text \<open>The template literal returned by \<open>dockerComposeContent\<close>, lines 33 to 69.\<close>

definition compose_template :: "string \<Rightarrow> string \<Rightarrow> string \<Rightarrow> string" where
  \<open>compose_template sessionSecret domain swarmManagerIp =
     ''version: '3'' @ [CHR 0x27] @ ''\<newline>''
     @ ''\<newline>''
     @ ''services:\<newline>''
     @ ''  web:\<newline>''
     @ ''    image: mothershippaas/mothership:latest\<newline>''
     @ ''    volumes:\<newline>''
     @ ''      - /var/run/docker.sock:/var/run/docker.sock\<newline>''
     @ ''      - /root/.docker:/root/.docker\<newline>''
     @ ''    environment:\<newline>''
     @ ''      - NODE_ENV=production\<newline>''
     @ ''      - SESSION_SECRET=''
     @ sessionSecret
     @ ''\<newline>''
     @ ''      - REDIS_HOST=redis\<newline>''
     @ ''      - DB_USERNAME=postgres\<newline>''
     @ ''      - DB_NAME=paas_development\<newline>''
     @ ''      - DB_HOST=database\<newline>''
     @ ''      - DB_PASSWORD=password\<newline>''
     @ ''      - MOTHERSHIP_DOMAIN=''
     @ domain
     @ ''\<newline>''
     @ ''      - MOTHERSHIP_MANAGER_NAME=''
     @ SWARM_MANAGER_NODE_NAME
     @ ''\<newline>''
     @ ''      - MOTHERSHIP_MANAGER_IP=''
     @ swarmManagerIp
     @ ''\<newline>''
     @ ''    ports:\<newline>''
     @ ''      - "443:443"\<newline>''
     @ ''      - "80:80"\<newline>''
     @ ''      - "3000:3000"\<newline>''
     @ ''\<newline>''
     @ ''  database:\<newline>''
     @ ''    image: postgres\<newline>''
     @ ''    environment:\<newline>''
     @ ''      - POSTGRES_DB=paas_development\<newline>''
     @ ''      - POSTGRES_PASSWORD=password\<newline>''
     @ ''    volumes:\<newline>''
     @ ''      - db_data:/var/lib/postgresql/data\<newline>''
     @ ''\<newline>''
     @ ''  redis:\<newline>''
     @ ''    image: redis\<newline>''
     @ ''\<newline>''
     @ ''volumes:\<newline>''
     @ ''  db_data:''\<close>

definition dockerComposeContent ::
  "env \<Rightarrow> string \<Rightarrow> string \<Rightarrow> event list \<Rightarrow> string \<times> event list" where
  "dockerComposeContent env domain swarmManagerIp w =
     (case randomBytes env 256 w of
        (buf, w') \<Rightarrow>
          (let sessionSecret = toString_hex buf
           in (compose_template sessionSecret domain swarmManagerIp, w')))"

subsection \<open>The promise wrappers\<close>

text \<open>
  \<open>createDockerMachine\<close>: \<open>if (err) { reject(err); } resolve();\<close>, where a \<open>resolve\<close>
  after a \<open>reject\<close> has no effect. \<open>getMachineIp\<close> and \<open>sshMachine\<close> likewise reject
  on an error and resolve with the address, respectively the output, otherwise (in
  \<open>getMachineIp\<close> the promise is already rejected when \<open>result.driver\<close> is read).
  \<open>promptForInput\<close> asks \<open>prompt + '\n> '\<close> and always resolves.
\<close>

definition createDockerMachine ::
  "env \<Rightarrow> string \<Rightarrow> string \<Rightarrow> (event list, error, unit) action" where
  "createDockerMachine env name accessToken w =
     (case create_reply env w name accessToken of
        Some err \<Rightarrow> Rejected err
      | None \<Rightarrow> Resolved (),
      w @ [Machine_create name accessToken])"

definition getMachineIp :: "env \<Rightarrow> string \<Rightarrow> (event list, error, string) action" where
  "getMachineIp env name w =
     (case inspect_reply env w name of
        Inl err \<Rightarrow> Rejected err
      | Inr ipAddress \<Rightarrow> Resolved ipAddress,
      w @ [Machine_inspect name])"

definition sshMachine :: "env \<Rightarrow> string \<Rightarrow> string \<Rightarrow> (event list, error, string) action" where
  "sshMachine env machine command w =
     (case ssh_reply env w machine command of
        Inl err \<Rightarrow> Rejected err
      | Inr result \<Rightarrow> Resolved result,
      w @ [Machine_ssh machine command])"

definition promptForInput :: "env \<Rightarrow> string \<Rightarrow> (event list, error, string) action" where
  \<open>promptForInput env prompt w =
     (Resolved (question_reply env w (prompt @ ''\<newline>> '')),
      w @ [Readline_question (prompt @ ''\<newline>> '')])\<close>

definition spawnSync :: "env \<Rightarrow> string \<Rightarrow> event list \<Rightarrow> int \<times> event list" where
  "spawnSync env command w = (spawn_reply env w command, w @ [Spawn_sync command])"

text \<open>
  \<open>String.prototype.trim\<close> removes white space and line terminators from both ends;
  among 8-bit characters these are tab, line feed, vertical tab, form feed, carriage
  return, space and no-break space.
\<close>

definition is_white_space :: "char \<Rightarrow> bool" where
  "is_white_space c = ((of_char c :: nat) \<in> {9, 10, 11, 12, 13, 32, 160})"

definition trim :: "string \<Rightarrow> string" where
  "trim s = rev (dropWhile is_white_space (rev (dropWhile is_white_space s)))"

subsection \<open>The commands sent over ssh and to the local shell\<close>

text \<open>Line 172, the compensation of the creation of the Mothership node.\<close>

definition cmd_rm_mothership :: string where
  \<open>cmd_rm_mothership =
     ''docker-machine rm -y ''
     @ MOTHERSHIP_NODE_NAME\<close>

text \<open>Lines 194 and 195.\<close>

definition cmd_download_compose :: string where
  \<open>cmd_download_compose =
     ''sudo curl -L ''
     @ ''"https://github.com/docker/compose/releases/download/1.25.0/docker-compose-$(uname ''
     @ ''-s)-$(uname -m)" -o /usr/local/bin/docker-compose''\<close>

definition cmd_chmod_compose :: string where
  \<open>cmd_chmod_compose = ''sudo chmod +x /usr/local/bin/docker-compose''\<close>

text \<open>Lines 199 to 202.\<close>

definition cmd_install_machine :: string where
  \<open>cmd_install_machine =
     ''base=https://github.com/docker/machine/releases/download/v0.16.2 &&\<newline>''
     @ ''  curl -L $base/docker-machine-$(uname -s)-$(uname -m) >/tmp/docker-machine ''
     @ ''&&\<newline>''
     @ ''  sudo mv /tmp/docker-machine /usr/local/bin/docker-machine &&\<newline>''
     @ ''  chmod +x /usr/local/bin/docker-machine''\<close>

text \<open>Lines 212 and 214: the creation of the swarm manager and its compensation.\<close>

definition cmd_create_swarm :: "string \<Rightarrow> string" where
  \<open>cmd_create_swarm accessToken =
     ''docker-machine create --driver digitalocean --digitalocean-access-token ''
     @ accessToken
     @ '' ''
     @ SWARM_MANAGER_NODE_NAME\<close>

definition cmd_rm_swarm :: string where
  \<open>cmd_rm_swarm =
     ''docker-machine rm -y ''
     @ SWARM_MANAGER_NODE_NAME\<close>

text \<open>Line 225.\<close>

definition cmd_ip_swarm :: string where
  \<open>cmd_ip_swarm =
     ''docker-machine ip ''
     @ SWARM_MANAGER_NODE_NAME\<close>

text \<open>Lines 231 and 235.\<close>

definition cmd_swarm_init :: "string \<Rightarrow> string" where
  \<open>cmd_swarm_init swarmManagerIp =
     ''eval $(docker-machine env ''
     @ SWARM_MANAGER_NODE_NAME
     @ '');docker swarm init --advertise-addr ''
     @ swarmManagerIp\<close>

definition cmd_network_create :: string where
  \<open>cmd_network_create =
     ''eval $(docker-machine env ''
     @ SWARM_MANAGER_NODE_NAME
     @ '');docker network create --driver overlay proxy''\<close>

text \<open>
  Lines 240 to 246 and 251 to 256; a backslash at the end of a line of a template literal
  continues the line.
\<close>

definition cmd_create_listener :: string where
  \<open>cmd_create_listener =
     ''eval $(docker-machine env ''
     @ SWARM_MANAGER_NODE_NAME
     @ '');docker service create --name swarm-listener --network proxy --mount ''
     @ ''"type=bind,source=/var/run/docker.sock,target=/var/run/docker.sock" -e ''
     @ ''DF_NOTIFY_CREATE_SERVICE_URL=http://proxy:8080/v1/docker-flow-proxy/reconfigure ''
     @ ''-e DF_NOTIFY_REMOVE_SERVICE_URL=http://proxy:8080/v1/docker-flow-proxy/remove ''
     @ ''--constraint 'node.role==manager' dockerflow/docker-flow-swarm-listener''\<close>

definition cmd_create_proxy :: string where
  \<open>cmd_create_proxy =
     ''eval $(docker-machine env ''
     @ SWARM_MANAGER_NODE_NAME
     @ '');docker service create --name proxy -p 80:80 -p 443:443 --network proxy -e ''
     @ ''LISTENER_ADDRESS=swarm-listener dockerflow/docker-flow-proxy''\<close>

text \<open>Line 264, around the rendered descriptor, and lines 268, 276 and 281.\<close>

definition cmd_write_compose :: "string \<Rightarrow> string" where
  \<open>cmd_write_compose content =
     ''echo "''
     @ content
     @ ''" >> docker-compose.yml''\<close>

definition cmd_compose_up :: string where
  \<open>cmd_compose_up = ''docker-compose up -d''\<close>

definition cmd_migrate :: string where
  \<open>cmd_migrate = ''docker-compose run web ./node_modules/.bin/sequelize db:migrate''\<close>

definition cmd_seed :: string where
  \<open>cmd_seed = ''docker-compose run web ./node_modules/.bin/sequelize db:seed:all''\<close>

section \<open>The workflow (\<open>main\<close>)\<close>

text \<open>
  \<open>main\<close> is an async function. An \<open>await\<close> of a resolved promise continues with its
  value; an \<open>await\<close> of a rejected promise throws, which ends \<open>main\<close> there (its promise
  rejects and nothing handles it); a promise that never settles leaves \<open>main\<close> suspended
  for ever. \<open>process.exit()\<close> ends the process.
\<close>

datatype 'a completion = Value 'a | Thrown error | Exited | Never

type_synonym 'a run = "event list \<Rightarrow> 'a completion \<times> event list"

definition await :: "(event list, error, 'a) action \<Rightarrow> ('a \<Rightarrow> 'b run) \<Rightarrow> 'b run" where
  "await p k w =
     (case p w of
        (Resolved v, w') \<Rightarrow> k v w'
      | (Rejected err, w') \<Rightarrow> (Thrown err, w')
      | (Pending, w') \<Rightarrow> (Never, w'))"

text \<open>Synchronous console and spinner statements between two awaits.\<close>

definition emits :: "event list \<Rightarrow> 'a run \<Rightarrow> 'a run" where
  "emits evs k w = k (w @ evs)"

text \<open>
  Lines 259 to 303. The argument of \<open>sshMachine\<close> on line 264 is evaluated first, so
  \<open>dockerComposeContent\<close> draws its random bytes before the command is sent. The
  spinner of line 280 is created but not started.
\<close>

definition config_and_start :: "env \<Rightarrow> string \<Rightarrow> string \<Rightarrow> string \<Rightarrow> unit run" where
  \<open>config_and_start env domain mothershipIp swarmManagerIp =
     emits [Console_log '''', Console_log ''MOTHERSHIP CONFIG AND START'',
            Ora_start ''Creating docker-compose.yml for Mothership...'']
     (\<lambda>w. case dockerComposeContent env domain swarmManagerIp w of
        (content, w') \<Rightarrow>
     (await (sshMachine env MOTHERSHIP_NODE_NAME (cmd_write_compose content)) (\<lambda>result.
      emits [Ora_succeed ''Creating docker-compose.yml for Mothership...'',
             Ora_start ''Starting Mothership server (Node.js + Postgres)...'']
     (await (sshMachine env MOTHERSHIP_NODE_NAME cmd_compose_up) (\<lambda>result.
      emits [Ora_succeed ''Starting Mothership server (Node.js + Postgres)...'',
             Ora_start ''Running migrations for Mothership database...'']
     (await (sshMachine env MOTHERSHIP_NODE_NAME cmd_migrate) (\<lambda>result.
      emits [Ora_succeed ''Running migrations for Mothership database...'']
     (await (sshMachine env MOTHERSHIP_NODE_NAME cmd_seed) (\<lambda>result.
      emits [Ora_succeed ''Seeding Mothership's database...'',
             Console_log '''',
             Console_log ''~~~~~~~~~~~~~~~~~~~~~~~~~~~~~~~~~~~~'',
             Console_log ''~~ Mothership installer complete! ~~'',
             Console_log ''~~~~~~~~~~~~~~~~~~~~~~~~~~~~~~~~~~~~'',
             Console_log '''',
             Console_log ''Note: To finish configuration you'll need to add the'',
             Console_log ''following resource records to your DNS provider:'',
             Console_log (table env
               ([''Name'', ''Type'', ''IP Address''] #
                [''@'', ''A'', swarmManagerIp] #
                [''*'', ''A'', swarmManagerIp] #
                [''mothership'', ''A'', mothershipIp] # [])),
             Console_log
               (''After adding these resource records visit Mothership online: http://mothership.''
                @ domain),
             Process_exit]
     (\<lambda>w. (Exited, w)))))))))) w')\<close>

text \<open>
  Lines 207 to 257. The failure callback of line 213 is an async function: calling it
  sends the \<open>rm\<close> command at once and returns a promise that \<open>retryPromiseIfNeeded\<close>
  drops; the rejection of the command is swallowed by \<open>.catch(() => {})\<close>. The log holds
  the commands in the order they are sent.
\<close>

definition swarm_setup :: "env \<Rightarrow> string \<Rightarrow> string \<Rightarrow> string \<Rightarrow> unit run" where
  \<open>swarm_setup env accessToken domain mothershipIp =
     emits [Console_log '''', Console_log ''MOTHERSHIP SWARM SETUP'',
            Ora_start ''Creating droplet for Mothership swarm manager...'']
     (\<lambda>w. case retryPromiseIfNeeded
                (sshMachine env MOTHERSHIP_NODE_NAME (cmd_create_swarm accessToken))
                (Some (\<lambda>err w. case sshMachine env MOTHERSHIP_NODE_NAME cmd_rm_swarm w of
                                  (settled, w') \<Rightarrow> (Returned, w')))
                None w of
        (Rejected err, invocations, w') \<Rightarrow>
          (Exited, w' @ [Ora_fail ''Creating droplet for Mothership swarm manager...'',
                        Console_log ''Could not successfully create node on 5 attempts.'',
                        Process_exit])
      | (Pending, invocations, w') \<Rightarrow> (Never, w')
      | (Resolved result, invocations, w') \<Rightarrow>
     (emits [Ora_succeed ''Creating droplet for Mothership swarm manager...'',
             Ora_start ''Getting IP address...'']
     (await (sshMachine env MOTHERSHIP_NODE_NAME cmd_ip_swarm) (\<lambda>swarmManagerIp.
      (let swarmManagerIp = trim swarmManagerIp in
      emits [Ora_succeed ''Getting IP address...'',
             Ora_start ''Initializing swarm...'']
     (await (sshMachine env MOTHERSHIP_NODE_NAME (cmd_swarm_init swarmManagerIp)) (\<lambda>result.
      emits [Ora_succeed ''Initializing swarm...'',
             Ora_start ''Creating overlay network...'']
     (await (sshMachine env MOTHERSHIP_NODE_NAME cmd_network_create) (\<lambda>result.
      emits [Ora_succeed ''Creating overlay network...'',
             Ora_start ''Creating docker-flow-swarm-listener service...'']
     (await (sshMachine env MOTHERSHIP_NODE_NAME cmd_create_listener) (\<lambda>result.
      emits [Ora_succeed ''Creating docker-flow-swarm-listener service...'',
             Ora_start ''Creating docker-flow-proxy service...'']
     (await (sshMachine env MOTHERSHIP_NODE_NAME cmd_create_proxy) (\<lambda>result.
      emits [Ora_succeed ''Creating docker-flow-proxy service...'']
     (config_and_start env domain mothershipIp swarmManagerIp))))))))))))) w')\<close>

text \<open>
  Lines 147 to 203, started on the empty log. The spinner of line 182 is created but not
  started; \<open>new DockerMachine(MOTHERSHIP_NODE_NAME)\<close> on line 188 only builds the handle
  that the later \<open>sshMachine\<close> calls name. The failure callback of line 171 runs
  \<open>spawnSync\<close> and ignores what it returns.
\<close>

definition main :: "env \<Rightarrow> unit completion \<times> event list" where
  \<open>main env =
     emits [Console_clear,
            Console_log '''',
            Console_log (color_magenta env MOTHERSHIP_LOGO),
            Console_log '''',
            Console_log (color_magenta env ''Automated Setup''),
            Console_log '''']
     (await (promptForInput env ''Please enter your DigitalOcean access token:'') (\<lambda>accessToken.
      await (promptForInput env ''Please enter the domain you'd like your server to run on:'') (\<lambda>domain.
      emits [Console_log '''', Console_log ''MOTHERSHIP SETUP'',
             Ora_start ''Creating droplet for Mothership (this may take a few moments)...'']
     (\<lambda>w. case retryPromiseIfNeeded
                (createDockerMachine env MOTHERSHIP_NODE_NAME accessToken)
                (Some (\<lambda>err w. case spawnSync env cmd_rm_mothership w of
                                  (returned, w') \<Rightarrow> (Returned, w')))
                None w of
        (Rejected err, invocations, w') \<Rightarrow>
          (Exited, w' @ [Ora_fail ''Creating droplet for Mothership (this may take a few moments)...'',
                        Console_log ''Could not successfully create node on 5 attempts.'',
                        Process_exit])
      | (Pending, invocations, w') \<Rightarrow> (Never, w')
      | (Resolved result, invocations, w') \<Rightarrow>
     (emits [Ora_succeed ''Creating droplet for Mothership (this may take a few moments)...'']
     (await (getMachineIp env MOTHERSHIP_NODE_NAME) (\<lambda>mothershipIp.
      emits [Ora_succeed ''Getting IP address of Mothership node...'',
             Ora_start ''Logging into Mothership droplet...'',
             Ora_succeed ''Logging into Mothership droplet...'',
             Ora_start ''Installing docker-compose...'']
     (await (sshMachine env MOTHERSHIP_NODE_NAME cmd_download_compose) (\<lambda>result.
      await (sshMachine env MOTHERSHIP_NODE_NAME cmd_chmod_compose) (\<lambda>result.
      emits [Ora_succeed ''Installing docker-compose...'',
             Ora_start ''Installing docker-machine...'']
     (await (sshMachine env MOTHERSHIP_NODE_NAME cmd_install_machine) (\<lambda>result.
      emits [Ora_succeed ''Installing docker-machine...'']
     (swarm_setup env accessToken domain mothershipIp))))))))) w'))))
     []\<close>

section \<open>Environments and predicates used to state the properties\<close>



text \<open>The calls to the provider, to a session and to the local shell.\<close>

fun remote_call :: "event \<Rightarrow> bool" where
  "remote_call (Machine_create n t) = True"
| "remote_call (Machine_inspect n) = True"
| "remote_call (Machine_ssh h c) = True"
| "remote_call (Spawn_sync c) = True"
| "remote_call ev = False"

text \<open>
  Whether the environment answered a call with success, given the log \<open>w\<close> at the moment
  of the call. Events that cannot fail count as successful.
\<close>

fun reply_ok :: "env \<Rightarrow> event list \<Rightarrow> event \<Rightarrow> bool" where
  "reply_ok env w (Machine_create n t) = (create_reply env w n t = None)"
| "reply_ok env w (Machine_inspect n) = (\<not> isl (inspect_reply env w n))"
| "reply_ok env w (Machine_ssh h c) = (\<not> isl (ssh_reply env w h c))"
| "reply_ok env w ev = True"

text \<open>The two compensations, lines 172 and 214.\<close>

definition compensation :: "event \<Rightarrow> bool" where
  "compensation ev =
     (ev = Spawn_sync cmd_rm_mothership \<or> ev = Machine_ssh MOTHERSHIP_NODE_NAME cmd_rm_swarm)"

text \<open>
  The call at position \<open>j\<close> of the log has been completed successfully before position
  \<open>i\<close>: that call itself, or a later attempt of the same call, was answered with success
  before \<open>i\<close>.
\<close>

definition done_before :: "env \<Rightarrow> event list \<Rightarrow> nat \<Rightarrow> nat \<Rightarrow> bool" where
  "done_before env w j i = (\<exists>k\<in>{j..<i}. w ! k = w ! j \<and> reply_ok env (take k w) (w ! k))"

text \<open>
  Logs in which every call waited for the calls before it (\<open>ordered\<close>), in which nothing is
  left to wait for (\<open>all_done\<close>), and in which only attempts of the call \<open>c\<close> are left
  (\<open>done_but\<close>).
\<close>

definition ordered :: "env \<Rightarrow> event list \<Rightarrow> bool" where
  "ordered env w =
     (\<forall>i<length w. remote_call (w ! i) \<longrightarrow>
        (\<forall>j<i. compensation (w ! j) \<or> w ! i = w ! j
               \<or> (compensation (w ! i) \<and> w ! (i - 1) = w ! j)
               \<or> done_before env w j i))"



text \<open>
  Invariants of runs: \<open>m\<close> started in a log satisfying \<open>G\<close> ends in a log satisfying \<open>A\<close>;
  an action started in \<open>S\<close> resolves in \<open>G\<close> and otherwise leaves \<open>F\<close>.
\<close>

definition run_inv :: "(event list \<Rightarrow> bool) \<Rightarrow> (event list \<Rightarrow> bool) \<Rightarrow> 'a run \<Rightarrow> bool" where
  "run_inv G A m = (\<forall>w. G w \<longrightarrow> A (snd (m w)))"



text \<open>A concrete environment for examples: every call succeeds with fixed answers.\<close>

definition base_env :: env where
  "base_env =
     \<lparr>question_reply = \<lambda>w p. ''answer'',
      create_reply = \<lambda>w n t. None,
      inspect_reply = \<lambda>w n. Inr ''10.0.0.1'',
      ssh_reply = \<lambda>w h c. Inr ''10.0.0.2'',
      spawn_reply = \<lambda>w c. 0,
      random_reply = \<lambda>w i. 0,
      color_magenta = \<lambda>s. s,
      table = \<lambda>rows. concat (map concat rows)\<rparr>"




text \<open>An environment in which the provider refuses every creation.\<close>

definition refusing_env :: env where
  "refusing_env = base_env\<lparr>create_reply := \<lambda>w n t. Some ''quota exceeded''\<rparr>"

text \<open>
  The environment \<open>env\<close> with other outcomes for the two compensations: \<open>status\<close> is what
  \<open>spawnSync\<close> returns, \<open>removal\<close> is how the \<open>docker-machine rm\<close> session on the Mothership
  node ends.
\<close>

definition with_compensation_outcomes ::
  "env \<Rightarrow> (event list \<Rightarrow> string \<Rightarrow> int) \<Rightarrow> (event list \<Rightarrow> string \<Rightarrow> error + string) \<Rightarrow> env" where
  "with_compensation_outcomes env status removal =
     env\<lparr>spawn_reply := status,
         ssh_reply := \<lambda>w h c. if c = cmd_rm_swarm then removal w h else ssh_reply env w h c\<rparr>"




text \<open>
  A random source that answers the request made at the log \<open>w\<close> with the bytes \<open>b1\<close> and
  every other request with the bytes \<open>b2\<close>: the two draws of two calls of
  \<open>dockerComposeContent\<close>, the first of them made at \<open>w\<close>.
\<close>

definition two_draws :: "env \<Rightarrow> event list \<Rightarrow> 8 word list \<Rightarrow> 8 word list \<Rightarrow> env" where
  "two_draws env w b1 b2 = env\<lparr>random_reply := \<lambda>u i. if u = w then b1 ! i else b2 ! i\<rparr>"








section \<open>Properties of the retry policy\<close>

lemma attemptPromise_resolved:
  "fn s = (Resolved v, s1) \<Longrightarrow>
   attemptPromise fn cbo m a s = (Resolved v, [Fn_invoked (Resolved v)], s1)"
  by (simp add: attemptPromise.simps)


lemma attemptPromise_exhausted:
  "fn s = (Rejected e, s1) \<Longrightarrow> m \<le> a \<Longrightarrow>
   attemptPromise fn cbo m a s = (Rejected e, [Fn_invoked (Rejected e)], s1)"
  by (simp add: attemptPromise.simps)

lemma attemptPromise_retry:
  "fn s = (Rejected e, s1) \<Longrightarrow> a < m \<Longrightarrow> cb e s1 = (Returned, s2) \<Longrightarrow>
   attemptPromise fn (Some cb) m a s =
     (case attemptPromise fn (Some cb) m (a + 1) s2 of
        (r, tr, s3) \<Rightarrow> (r, Fn_invoked (Rejected e) # Cb_invoked e # tr, s3))"
  by (subst attemptPromise.simps) (simp add: call_failedAttemptCb_def)

lemma attemptPromise_cb_threw:
  "fn s = (Rejected e, s1) \<Longrightarrow> a < m \<Longrightarrow> cb e s1 = (Threw, s2) \<Longrightarrow>
   attemptPromise fn (Some cb) m a s = (Pending, [Fn_invoked (Rejected e), Cb_invoked e], s2)"
  by (subst attemptPromise.simps) (simp add: call_failedAttemptCb_def)

lemma attemptPromise_retry_no_cb:
  "fn s = (Rejected e, s1) \<Longrightarrow> a < m \<Longrightarrow>
   attemptPromise fn None m a s =
     (case attemptPromise fn None m (a + 1) s1 of
        (r, tr, s3) \<Rightarrow> (r, Fn_invoked (Rejected e) # tr, s3))"
  by (subst attemptPromise.simps) (simp add: call_failedAttemptCb_def)

lemma failed_rounds_Suc:
  "failed_rounds errs (Suc j) =
     Fn_invoked (Rejected (errs 0)) # Cb_invoked (errs 0) # failed_rounds (\<lambda>i. errs (Suc i)) j"
  by (simp add: failed_rounds_def map_upt_Suc del: upt_Suc)

lemma attemptPromise_failures:
  assumes "\<forall>i<j. \<exists>s1. fn (st i) = (Rejected (errs i), s1) \<and> cb (errs i) s1 = (Returned, st (Suc i))"
    and "a + int j \<le> m"
  shows "attemptPromise fn (Some cb) m a (st 0) =
           (case attemptPromise fn (Some cb) m (a + int j) (st j) of
              (r, tr, t) \<Rightarrow> (r, failed_rounds errs j @ tr, t))"
  using assms
proof (induction j arbitrary: a st errs)
  case 0
  then show ?case by (simp add: failed_rounds_def split: prod.splits)
next
  case (Suc j)
  from Suc.prems(1) obtain s1 where
    first: "fn (st 0) = (Rejected (errs 0), s1)" "cb (errs 0) s1 = (Returned, st (Suc 0))"
    by auto
  have rest: "\<forall>i<j. \<exists>s1. fn (st (Suc i)) = (Rejected (errs (Suc i)), s1)
                \<and> cb (errs (Suc i)) s1 = (Returned, st (Suc (Suc i)))"
    using Suc.prems(1) by auto
  have bound: "(a + 1) + int j \<le> m" "a < m"
    using Suc.prems(2) by simp_all
  have ih: "attemptPromise fn (Some cb) m (a + 1) (st (Suc 0)) =
           (case attemptPromise fn (Some cb) m (a + 1 + int j) (st (Suc j)) of
              (r, tr, t) \<Rightarrow> (r, failed_rounds (\<lambda>i. errs (Suc i)) j @ tr, t))"
    using Suc.IH [of "\<lambda>i. st (Suc i)" "\<lambda>i. errs (Suc i)" "a + 1", OF rest bound(1)] .
  have idx: "a + 1 + int j = a + int (Suc j)" by simp
  have step: "attemptPromise fn (Some cb) m a (st 0) =
     (case attemptPromise fn (Some cb) m (a + 1) (st (Suc 0)) of
        (r, tr, s3) \<Rightarrow> (r, Fn_invoked (Rejected (errs 0)) # Cb_invoked (errs 0) # tr, s3))"
    using first(1) bound(2) first(2) by (rule attemptPromise_retry)
  show ?case
    unfolding step ih idx failed_rounds_Suc
    by (simp split: prod.splits)
qed


lemma count_failed_rounds:
  "length (filter is_Fn (failed_rounds errs j)) = j"
  "length (filter is_Cb (failed_rounds errs j)) = j"
  by (induction j) (simp_all add: failed_rounds_def)

text \<open>
  Claim C2. For \<open>maxTries = n\<close> and an action whose first \<open>k - 1\<close> invocations reject
  and whose \<open>k\<close>-th invocation resolves with \<open>v\<close>, \<open>1 \<le> k \<le> n\<close> (\<open>st i\<close> is the
  state in which invocation \<open>i + 1\<close> is made, \<open>errs i\<close> its error): the retry resolves with
  \<open>v\<close>, the action is invoked exactly \<open>k\<close> times and the callback exactly \<open>k - 1\<close> times,
  and the resolving invocation is the last thing that happens. With \<open>k = 1\<close> the action
  runs once and the callback never.
\<close>

theorem retry_succeeds_on_attempt_k:
  assumes "1 \<le> k" and "int k \<le> n"
    and "\<forall>i<k - 1. \<exists>s1. fn (st i) = (Rejected (errs i), s1)
            \<and> cb (errs i) s1 = (Returned, st (Suc i))"
    and "fn (st (k - 1)) = (Resolved v, t)"
  shows "case retryPromiseIfNeeded fn (Some cb) (Some n) (st 0) of
           (r, tr, s') \<Rightarrow>
             r = Resolved v \<and> s' = t
             \<and> tr = failed_rounds errs (k - 1) @ [Fn_invoked (Resolved v)]
             \<and> length (filter is_Fn tr) = k
             \<and> length (filter is_Cb tr) = k - 1
             \<and> last tr = Fn_invoked (Resolved v)"
proof -
  have bound: "1 + int (k - 1) \<le> n"
    using assms(1,2) by simp
  have idx: "1 + int (k - 1) = int k"
    using assms(1) by simp
  have run: "attemptPromise fn (Some cb) n 1 (st 0) =
      (case attemptPromise fn (Some cb) n (1 + int (k - 1)) (st (k - 1)) of
         (r, tr, t) \<Rightarrow> (r, failed_rounds errs (k - 1) @ tr, t))"
    using assms(3) bound by (rule attemptPromise_failures)
  have fin: "attemptPromise fn (Some cb) n (int k) (st (k - 1)) =
      (Resolved v, [Fn_invoked (Resolved v)], t)"
    using assms(4) by (rule attemptPromise_resolved)
  show ?thesis
    using assms(1) fin
    by (simp add: retryPromiseIfNeeded_def run idx count_failed_rounds)
qed

theorem retry_succeeds_on_attempt_k_witness:
  "retryPromiseIfNeeded (flaky_action 2) (Some quiet_cb) (Some 5) 0 =
     (Resolved ''ok'',
      [Fn_invoked (Rejected ''boom''), Cb_invoked ''boom'',
       Fn_invoked (Rejected ''boom''), Cb_invoked ''boom'',
       Fn_invoked (Resolved ''ok'')], 3)"
proof -
  have h1: "(1::nat) \<le> 3" and h2: "int 3 \<le> 5" by simp_all
  have h3: "\<forall>i<3 - 1. \<exists>s1. flaky_action 2 (id i) = (Rejected ((\<lambda>i. ''boom'') i), s1)
            \<and> quiet_cb ((\<lambda>i. ''boom'') i) s1 = (Returned, id (Suc i))"
    by (simp add: flaky_action_def quiet_cb_def)
  have h4: "flaky_action 2 (id (3 - 1)) = (Resolved ''ok'', 3)"
    by (simp add: flaky_action_def)
  note inst = retry_succeeds_on_attempt_k [of 3 5 "flaky_action 2" id "\<lambda>i. ''boom''" quiet_cb
      "''ok''" 3]
  have rounds: "failed_rounds (\<lambda>i. ''boom'') 2 =
      [Fn_invoked (Rejected ''boom''), Cb_invoked ''boom'',
       Fn_invoked (Rejected ''boom''), Cb_invoked ''boom'' :: (string, string) invocation]"
    by (simp add: failed_rounds_def numeral_2_eq_2)
  show ?thesis
    using inst [OF h1 h2 h3 h4] rounds
    by (simp split: prod.splits)
qed

text \<open>
  Claim C3. For \<open>maxTries = n \<ge> 1\<close> and an action that rejects on all \<open>n\<close> invocations:
  the retry rejects with the error of the \<open>n\<close>-th invocation, the action is invoked
  exactly \<open>n\<close> times and the callback exactly \<open>n - 1\<close> times; the last invocation is the
  rejected action, with no callback after it.
\<close>

theorem retry_exhausted_after_n_failures:
  assumes "1 \<le> n"
    and "\<forall>i<n - 1. \<exists>s1. fn (st i) = (Rejected (errs i), s1)
            \<and> cb (errs i) s1 = (Returned, st (Suc i))"
    and "fn (st (n - 1)) = (Rejected (errs (n - 1)), t)"
  shows "case retryPromiseIfNeeded fn (Some cb) (Some (int n)) (st 0) of
           (r, tr, s') \<Rightarrow>
             r = Rejected (errs (n - 1)) \<and> s' = t
             \<and> tr = failed_rounds errs (n - 1) @ [Fn_invoked (Rejected (errs (n - 1)))]
             \<and> length (filter is_Fn tr) = n
             \<and> length (filter is_Cb tr) = n - 1
             \<and> last tr = Fn_invoked (Rejected (errs (n - 1)))"
proof -
  have bound: "1 + int (n - 1) \<le> int n"
    using assms(1) by simp
  have idx: "1 + int (n - 1) = int n"
    using assms(1) by simp
  have run: "attemptPromise fn (Some cb) (int n) 1 (st 0) =
      (case attemptPromise fn (Some cb) (int n) (1 + int (n - 1)) (st (n - 1)) of
         (r, tr, t) \<Rightarrow> (r, failed_rounds errs (n - 1) @ tr, t))"
    using assms(2) bound by (rule attemptPromise_failures)
  have fin: "attemptPromise fn (Some cb) (int n) (int n) (st (n - 1)) =
      (Rejected (errs (n - 1)), [Fn_invoked (Rejected (errs (n - 1)))], t)"
    using assms(3) by (rule attemptPromise_exhausted) simp
  show ?thesis
    using assms(1) fin
    by (simp add: retryPromiseIfNeeded_def run idx count_failed_rounds)
qed

theorem retry_exhausted_after_n_failures_witness:
  "retryPromiseIfNeeded (flaky_action 7) (Some quiet_cb) (Some 3) 0 =
     (Rejected ''boom'',
      [Fn_invoked (Rejected ''boom''), Cb_invoked ''boom'',
       Fn_invoked (Rejected ''boom''), Cb_invoked ''boom'',
       Fn_invoked (Rejected ''boom'')], 3)"
proof -
  have h1: "(1::nat) \<le> 3" by simp
  have h2: "\<forall>i<3 - 1. \<exists>s1. flaky_action 7 (id i) = (Rejected ((\<lambda>i. ''boom'') i), s1)
            \<and> quiet_cb ((\<lambda>i. ''boom'') i) s1 = (Returned, id (Suc i))"
    by (simp add: flaky_action_def quiet_cb_def)
  have h3: "flaky_action 7 (id (3 - 1)) = (Rejected ((\<lambda>i. ''boom'') (3 - 1)), 3)"
    by (simp add: flaky_action_def)
  note inst = retry_exhausted_after_n_failures [of 3 "flaky_action 7" id "\<lambda>i. ''boom''"
      quiet_cb 3]
  have rounds: "failed_rounds (\<lambda>i. ''boom'') 2 =
      [Fn_invoked (Rejected ''boom''), Cb_invoked ''boom'',
       Fn_invoked (Rejected ''boom''), Cb_invoked ''boom'' :: (string, string) invocation]"
    by (simp add: failed_rounds_def numeral_2_eq_2)
  show ?thesis
    using inst [OF h1 h2 h3] rounds
    by (simp split: prod.splits)
qed

text \<open>
  Claim C9. For \<open>maxTries \<le> 1\<close> (zero and negative values included) and an action whose
  first invocation rejects, with or without a callback: the action is invoked once, the
  callback never, and the retry rejects with that first error, since \<open>attempt = 1\<close>
  already satisfies \<open>attempt >= maxTries\<close>.
\<close>

theorem retry_maxTries_at_most_one:
  assumes "fn s = (Rejected e, s1)" and "m \<le> 1"
  shows "retryPromiseIfNeeded fn failedAttemptCb (Some m) s =
           (Rejected e, [Fn_invoked (Rejected e)], s1)"
  unfolding retryPromiseIfNeeded_def
  using assms by (simp add: attemptPromise_exhausted)

theorem retry_maxTries_at_most_one_witness:
  "retryPromiseIfNeeded (flaky_action 7) (Some throwing_cb) (Some (- 3)) 0 =
     (Rejected ''boom'', [Fn_invoked (Rejected ''boom'')], 1)
   \<and> retryPromiseIfNeeded (flaky_action 7) (Some quiet_cb) (Some 0) 0 =
     (Rejected ''boom'', [Fn_invoked (Rejected ''boom'')], 1)"
proof -
  have h: "flaky_action 7 0 = (Rejected ''boom'', 1)"
    by (simp add: flaky_action_def)
  show ?thesis
    using retry_maxTries_at_most_one [of "flaky_action 7" 0 "''boom''" 1 "- 3" "Some throwing_cb"]
      retry_maxTries_at_most_one [of "flaky_action 7" 0 "''boom''" 1 0 "Some quiet_cb"] h
    by simp
qed






section \<open>Properties of the workflow\<close>

subsection \<open>Invariant rules\<close>



lemma run_inv_exit:
  assumes "\<And>w. G w \<Longrightarrow> A (w @ evs)"
  shows "run_inv G A (emits evs (\<lambda>w. (Exited, w)))"
  using assms by (simp add: run_inv_def emits_def)




















subsection \<open>Every call waits for the calls before it\<close>



















text \<open>
  A log that gives up a retried step is not ordered: here the creation of the Mothership
  node is refused, its compensation runs, and the next step is issued all the same.
\<close>

lemma abandoned_retry_not_ordered:
  "\<not> ordered refusing_env
       [Machine_create MOTHERSHIP_NODE_NAME ''token'', Spawn_sync cmd_rm_mothership,
        Machine_inspect MOTHERSHIP_NODE_NAME]"
proof
  let ?w = "[Machine_create MOTHERSHIP_NODE_NAME ''token'', Spawn_sync cmd_rm_mothership,
        Machine_inspect MOTHERSHIP_NODE_NAME]"
  assume "ordered refusing_env ?w"
  moreover have "2 < length ?w" "remote_call (?w ! 2)" "(0 :: nat) < 2" by simp_all
  ultimately have "compensation (?w ! 0) \<or> ?w ! 2 = ?w ! 0
      \<or> (compensation (?w ! 2) \<and> ?w ! (2 - 1) = ?w ! 0) \<or> done_before refusing_env ?w 0 2"
    unfolding ordered_def by blast
  moreover have "{0 ..< 2 :: nat} = {0, 1}" by auto
  ultimately show False
    by (simp add: compensation_def done_before_def refusing_env_def)
qed

subsection \<open>Every call goes to or through the Mothership node\<close>




subsection \<open>A run in which every call succeeds\<close>




subsection \<open>The creation of the Mothership node fails for good\<close>






subsection \<open>The rendered descriptor and its secret\<close>

lemma hex_digit_code:
  assumes "d < 16"
  shows "(of_char (hex_digit d) :: nat) = (if d < 10 then 48 + d else 87 + d)"
proof -
  have "\<forall>d\<in>set [0..<16]. (of_char (hex_digit d) :: nat) = (if d < 10 then 48 + d else 87 + d)"
    by (simp add: hex_digit_def upt_rec [of 0] upt_rec [of "Suc _"] numeral_eq_Suc)
  with assms show ?thesis by simp
qed

lemma hex_digit_inj:
  assumes "d < 16" and "d' < 16" and "hex_digit d = hex_digit d'"
  shows "d = d'"
proof -
  from assms(3) have "(of_char (hex_digit d) :: nat) = of_char (hex_digit d')" by simp
  with assms(1,2) show ?thesis
    by (simp add: hex_digit_code split: if_splits)
qed

lemma hex_byte_inj:
  fixes b b' :: "8 word"
  assumes "hex_digit (unat b div 16) = hex_digit (unat b' div 16)"
    and "hex_digit (unat b mod 16) = hex_digit (unat b' mod 16)"
  shows "b = b'"
proof -
  have bound: "unat b < 256" "unat b' < 256"
    using unsigned_less [of b, where 'a = nat] unsigned_less [of b', where 'a = nat] by simp_all
  then have "unat b div 16 = unat b' div 16"
    by (intro hex_digit_inj [OF _ _ assms(1)]) simp_all
  moreover have "unat b mod 16 = unat b' mod 16"
    by (intro hex_digit_inj [OF _ _ assms(2)]) simp_all
  ultimately have "unat b = unat b'"
    by (metis div_mult_mod_eq)
  then show ?thesis by (simp add: word_unat_eq_iff)
qed

lemma toString_hex_inj:
  assumes "toString_hex buf = toString_hex buf'"
  shows "buf = buf'"
  using assms
proof (induction buf arbitrary: buf')
  case Nil
  then show ?case by (cases buf') (simp_all add: toString_hex_def)
next
  case (Cons b buf)
  then obtain b' rest where buf': "buf' = b' # rest"
    by (cases buf') (simp_all add: toString_hex_def)
  with Cons.prems have "b = b'" and "toString_hex buf = toString_hex rest"
    by (simp_all add: toString_hex_def hex_byte_inj)
  with Cons.IH buf' show ?case by simp
qed

lemma length_toString_hex: "length (toString_hex buf) = 2 * length buf"
  by (induction buf) (simp_all add: toString_hex_def)

lemma hex_digit_in_alphabet: "d < 16 \<Longrightarrow> hex_digit d \<in> set ''0123456789abcdef''"
  unfolding hex_digit_def by (rule nth_mem) simp

lemma toString_hex_alphabet: "set (toString_hex buf) \<subseteq> set ''0123456789abcdef''"
proof (induction buf)
  case Nil
  then show ?case by (simp add: toString_hex_def)
next
  case (Cons b buf)
  have "hex_digit (unat b div 16) \<in> set ''0123456789abcdef''"
    using unsigned_less [of b, where 'a = nat] by (intro hex_digit_in_alphabet) simp
  moreover have "hex_digit (unat b mod 16) \<in> set ''0123456789abcdef''"
    by (intro hex_digit_in_alphabet) simp
  ultimately show ?case using Cons.IH by (simp add: toString_hex_def)
qed

lemma card_buffers: "card {buf :: 8 word list. length buf = n} = 256 ^ n"
  using card_lists_length_eq [of "UNIV :: 8 word set" n] by (simp add: card_word)

subsection \<open>The outcome of a compensation is never looked at\<close>

lemma workflow_commands_not_rm:
  "cmd_download_compose \<noteq> cmd_rm_swarm"
  "cmd_chmod_compose \<noteq> cmd_rm_swarm"
  "cmd_install_machine \<noteq> cmd_rm_swarm"
  "cmd_create_swarm accessToken \<noteq> cmd_rm_swarm"
  "cmd_ip_swarm \<noteq> cmd_rm_swarm"
  "cmd_swarm_init swarmManagerIp \<noteq> cmd_rm_swarm"
  "cmd_network_create \<noteq> cmd_rm_swarm"
  "cmd_create_listener \<noteq> cmd_rm_swarm"
  "cmd_create_proxy \<noteq> cmd_rm_swarm"
  "cmd_write_compose content \<noteq> cmd_rm_swarm"
  "cmd_compose_up \<noteq> cmd_rm_swarm"
  "cmd_migrate \<noteq> cmd_rm_swarm"
  "cmd_seed \<noteq> cmd_rm_swarm"
  by (simp_all add: cmd_download_compose_def cmd_chmod_compose_def cmd_install_machine_def
      cmd_create_swarm_def cmd_ip_swarm_def cmd_swarm_init_def cmd_network_create_def
      cmd_create_listener_def cmd_create_proxy_def cmd_write_compose_def cmd_compose_up_def
      cmd_migrate_def cmd_seed_def cmd_rm_swarm_def)

lemma sshMachine_other_outcomes:
  "c \<noteq> cmd_rm_swarm \<Longrightarrow>
   sshMachine (with_compensation_outcomes env status removal) h c = sshMachine env h c"
  by (rule ext) (simp add: sshMachine_def with_compensation_outcomes_def)

lemma compensation_swarm_discards:
  "(\<lambda>err w. case sshMachine env h c w of (settled, w') \<Rightarrow> (Returned, w')) =
   (\<lambda>err w. (Returned, w @ [Machine_ssh h c]))"
  by (simp add: sshMachine_def)

lemma compensation_mothership_discards:
  "(\<lambda>err w. case spawnSync env c w of (returned, w') \<Rightarrow> (Returned, w')) =
   (\<lambda>err w. (Returned, w @ [Spawn_sync c]))"
  by (simp add: spawnSync_def)

lemma other_outcomes_same:
  "createDockerMachine (with_compensation_outcomes env status removal) = createDockerMachine env"
  "getMachineIp (with_compensation_outcomes env status removal) = getMachineIp env"
  "promptForInput (with_compensation_outcomes env status removal) = promptForInput env"
  "dockerComposeContent (with_compensation_outcomes env status removal) = dockerComposeContent env"
  "color_magenta (with_compensation_outcomes env status removal) = color_magenta env"
  "table (with_compensation_outcomes env status removal) = table env"
  by (auto simp: fun_eq_iff createDockerMachine_def getMachineIp_def promptForInput_def
      dockerComposeContent_def randomBytes_def with_compensation_outcomes_def)

lemma config_and_start_same:
  "config_and_start (with_compensation_outcomes env status removal) = config_and_start env"
  by (simp add: fun_eq_iff config_and_start_def other_outcomes_same
      sshMachine_other_outcomes workflow_commands_not_rm)

lemma swarm_setup_same:
  "swarm_setup (with_compensation_outcomes env status removal) = swarm_setup env"
  by (simp add: fun_eq_iff swarm_setup_def config_and_start_same other_outcomes_same
      sshMachine_other_outcomes workflow_commands_not_rm compensation_swarm_discards
      cong: prod.case_cong promise.case_cong)

lemma main_same:
  "main (with_compensation_outcomes env status removal) = main env"
  by (simp add: main_def swarm_setup_same other_outcomes_same
      sshMachine_other_outcomes workflow_commands_not_rm compensation_mothership_discards
      cong: prod.case_cong promise.case_cong)

subsection \<open>The command of the write step\<close>







section \<open>The claims about the workflow\<close>






subsection \<open>Two descriptors for the same domain and address\<close>

lemma dockerComposeContent_secret:
  \<open>dockerComposeContent env domain swarmManagerIp w =
     (take 227 (compose_template [] domain swarmManagerIp) @ ''SESSION_SECRET=''
      @ toString_hex (map (random_reply env w) [0..<256])
      @ drop 242 (compose_template [] domain swarmManagerIp),
      w @ [Random_bytes 256])\<close>
  by (simp add: dockerComposeContent_def randomBytes_def compose_template_def)

lemma secret_eq:
  assumes "length a = length b"
  shows "(pre @ k @ toString_hex a @ post = pre @ k @ toString_hex b @ post) = (a = b)"
  using assms toString_hex_inj [of a b] by (auto simp: length_toString_hex)

lemma dockerComposeContent_same:
  "fst (dockerComposeContent env domain swarmManagerIp w) =
     fst (dockerComposeContent env' domain swarmManagerIp w')
   \<longleftrightarrow> map (random_reply env w) [0..<256] = map (random_reply env' w') [0..<256]"
  unfolding dockerComposeContent_secret fst_conv by (rule secret_eq) simp

lemma two_draws_first:
  assumes "length b1 = 256"
  shows "map (random_reply (two_draws env w b1 b2) w) [0..<256] = b1"
proof -
  have "map ((!) b1) [0..<length b1] = b1" by (rule map_nth)
  then have "map ((!) b1) [0..<256] = b1" unfolding assms .
  moreover have "map (random_reply (two_draws env w b1 b2) w) [0..<256] = map ((!) b1) [0..<256]"
    by (simp add: two_draws_def)
  ultimately show ?thesis by simp
qed

lemma two_draws_second:
  assumes "length b2 = 256" and "w' \<noteq> w"
  shows "map (random_reply (two_draws env w b1 b2) w') [0..<256] = b2"
proof -
  have "map ((!) b2) [0..<length b2] = b2" by (rule map_nth)
  then have "map ((!) b2) [0..<256] = b2" unfolding assms(1) .
  moreover have "map (random_reply (two_draws env w b1 b2) w') [0..<256] = map ((!) b2) [0..<256]"
    using assms(2) by (simp add: two_draws_def)
  ultimately show ?thesis by simp
qed

lemma card_two_buffers:
  "card {(b1 :: 8 word list, b2 :: 8 word list). length b1 = 256 \<and> length b2 = 256} = 256 ^ 512"
proof -
  have "{(b1 :: 8 word list, b2 :: 8 word list). length b1 = 256 \<and> length b2 = 256} =
      {b. length b = 256} \<times> {b. length b = 256}"
    by auto
  then have "card {(b1 :: 8 word list, b2 :: 8 word list). length b1 = 256 \<and> length b2 = 256} =
      256 ^ 256 * 256 ^ 256"
    by (simp only: card_cartesian_product card_buffers)
  also have "\<dots> = (256 :: nat) ^ (256 + 256)" by (simp only: power_add)
  finally show ?thesis by simp
qed

lemma card_equal_buffers:
  "card {(b1 :: 8 word list, b2 :: 8 word list). length b1 = 256 \<and> length b2 = 256 \<and> b1 = b2}
     = 256 ^ 256"
proof -
  have "{(b1 :: 8 word list, b2 :: 8 word list). length b1 = 256 \<and> length b2 = 256 \<and> b1 = b2} =
      (\<lambda>b. (b, b)) ` {b. length b = 256}"
    by auto
  moreover have "inj_on (\<lambda>b :: 8 word list. (b, b)) {b. length b = 256}"
    by (rule inj_onI) simp
  ultimately show ?thesis by (simp only: card_image card_buffers)
qed

lemma two_draws_collide:
  "{(b1, b2). length b1 = 256 \<and> length b2 = 256
      \<and> fst (dockerComposeContent (two_draws env w b1 b2) domain swarmManagerIp w) =
        fst (dockerComposeContent (two_draws env w b1 b2) domain swarmManagerIp
               (w @ Random_bytes 256 # u))} =
   {(b1, b2). length b1 = 256 \<and> length b2 = 256 \<and> b1 = b2}"
proof -
  have "fst (dockerComposeContent (two_draws env w b1 b2) domain swarmManagerIp w) =
        fst (dockerComposeContent (two_draws env w b1 b2) domain swarmManagerIp
               (w @ Random_bytes 256 # u)) \<longleftrightarrow> b1 = b2"
    if "length b1 = 256" "length b2 = 256" for b1 b2
    unfolding dockerComposeContent_same
    using that by (simp add: two_draws_first two_draws_second)
  then show ?thesis by auto
qed

text \<open>
  Claim C6. Every call of \<open>dockerComposeContent\<close> makes one request of its own for 256
  bytes to \<open>crypto.randomBytes\<close> and embeds the hexadecimal form of the bytes answered
  to that request, 512 digits, after \<open>SESSION_SECRET=\<close>; the text before and after
  depends on the domain and the address only, so two documents for the same domain and
  address differ only in the secret, and they are equal exactly when the two draws are
  equal, since no byte is lost in the encoding. Of the \<open>256 ^ 512\<close> pairs of draws of
  two calls, \<open>256 ^ 256\<close> give equal documents: with a source that is uniform on the
  256-byte strings and independent between requests, which is what the cryptographic
  random source of the library provides, two calls collide with probability
  \<open>256 ^ 256 / 256 ^ 512 = 2 ^ - 2048\<close>.
\<close>

theorem descriptors_differ_only_in_secret:
  \<open>(\<exists>pre post. \<forall>env w.
       dockerComposeContent env domain swarmManagerIp w =
         (pre @ ''SESSION_SECRET='' @ toString_hex (map (random_reply env w) [0..<256]) @ post,
          w @ [Random_bytes 256]))
   \<and> length (toString_hex (map (random_reply env w) [0..<256])) = 512
   \<and> set (toString_hex (map (random_reply env w) [0..<256])) \<subseteq> set ''0123456789abcdef''
   \<and> (fst (dockerComposeContent env domain swarmManagerIp w) =
         fst (dockerComposeContent env domain swarmManagerIp w')
       \<longleftrightarrow> map (random_reply env w) [0..<256] = map (random_reply env w') [0..<256])
   \<and> card {(b1 :: 8 word list, b2 :: 8 word list). length b1 = 256 \<and> length b2 = 256} = 256 ^ 512
   \<and> card {(b1, b2). length b1 = 256 \<and> length b2 = 256
        \<and> fst (dockerComposeContent (two_draws env w b1 b2) domain swarmManagerIp w) =
          fst (dockerComposeContent (two_draws env w b1 b2) domain swarmManagerIp
                 (w @ Random_bytes 256 # u))} = 256 ^ 256\<close>
proof (intro conjI)
  show \<open>\<exists>pre post. \<forall>env w.
       dockerComposeContent env domain swarmManagerIp w =
         (pre @ ''SESSION_SECRET='' @ toString_hex (map (random_reply env w) [0..<256]) @ post,
          w @ [Random_bytes 256])\<close>
    apply (rule exI [of _ "take 227 (compose_template [] domain swarmManagerIp)"])
    apply (rule exI [of _ "drop 242 (compose_template [] domain swarmManagerIp)"])
    apply (intro allI)
    apply (rule dockerComposeContent_secret)
    done
  show "length (toString_hex (map (random_reply env w) [0..<256])) = 512"
    by (simp add: length_toString_hex)
  show "set (toString_hex (map (random_reply env w) [0..<256])) \<subseteq> set ''0123456789abcdef''"
    by (rule toString_hex_alphabet)
  show "fst (dockerComposeContent env domain swarmManagerIp w) =
         fst (dockerComposeContent env domain swarmManagerIp w')
       \<longleftrightarrow> map (random_reply env w) [0..<256] = map (random_reply env w') [0..<256]"
    by (rule dockerComposeContent_same)
  show "card {(b1 :: 8 word list, b2 :: 8 word list). length b1 = 256 \<and> length b2 = 256} = 256 ^ 512"
    by (rule card_two_buffers)
  show "card {(b1, b2). length b1 = 256 \<and> length b2 = 256
        \<and> fst (dockerComposeContent (two_draws env w b1 b2) domain swarmManagerIp w) =
          fst (dockerComposeContent (two_draws env w b1 b2) domain swarmManagerIp
                 (w @ Random_bytes 256 # u))} = 256 ^ 256"
    unfolding two_draws_collide by (rule card_equal_buffers)
qed

text \<open>
  Claim C8, the counterexample. With \<open>maxTries = 2\<close> and an action that rejects once and
  then resolves, a callback that returns lets the retry resolve; a callback that throws
  leaves it pending for ever after a single attempt.
\<close>

theorem throwing_callback_counterexample:
  "retryPromiseIfNeeded (flaky_action 1) (Some quiet_cb) (Some 2) 0 =
     (Resolved ''ok'',
      [Fn_invoked (Rejected ''boom''), Cb_invoked ''boom'', Fn_invoked (Resolved ''ok'')], 2)
   \<and> retryPromiseIfNeeded (flaky_action 1) (Some throwing_cb) (Some 2) 0 =
     (Pending, [Fn_invoked (Rejected ''boom''), Cb_invoked ''boom''], 1)"
proof -
  have first: "flaky_action 1 0 = (Rejected ''boom'', 1)"
    and second: "flaky_action 1 1 = (Resolved ''ok'', 2)"
    by (simp_all add: flaky_action_def)
  have quiet: "quiet_cb ''boom'' 1 = (Returned, 1)"
    and throwing: "throwing_cb ''boom'' 1 = (Threw, 1)"
    by (simp_all add: quiet_cb_def throwing_cb_def)
  have "attemptPromise (flaky_action 1) (Some quiet_cb) 2 1 0 =
      (Resolved ''ok'',
       [Fn_invoked (Rejected ''boom''), Cb_invoked ''boom'', Fn_invoked (Resolved ''ok'')], 2)"
    using attemptPromise_retry [of "flaky_action 1" 0 "''boom''" 1 1 2 quiet_cb 1]
      attemptPromise_resolved [of "flaky_action 1" 1 "''ok''" 2 "Some quiet_cb" 2 2]
      first second quiet
    by simp
  moreover have "attemptPromise (flaky_action 1) (Some throwing_cb) 2 1 0 =
      (Pending, [Fn_invoked (Rejected ''boom''), Cb_invoked ''boom''], 1)"
    using attemptPromise_cb_threw [of "flaky_action 1" 0 "''boom''" 1 1 2 throwing_cb 1]
      first throwing
    by simp
  ultimately show ?thesis by (simp add: retryPromiseIfNeeded_def)
qed

text \<open>
  Claim C8, as amended. The retry policy does not catch a callback that throws: with such
  a callback it makes a single attempt, and when that attempt rejects and may be retried
  the promise of the retry never settles. The two compensations of the workflow do not
  throw and discard their own outcome: whatever \<open>spawnSync\<close> returns for the removal of
  the Mothership node and however the removal of the swarm manager over ssh ends, the
  run is the same.
\<close>

theorem compensation_outcome_ignored:
  "retryPromiseIfNeeded fn (Some (\<lambda>err s. (Threw, g err s))) maxTries s =
     (case fn s of
        (Rejected err, s1) \<Rightarrow>
          if (case maxTries of None \<Rightarrow> 5 | Some n \<Rightarrow> n) \<le> 1
          then (Rejected err, [Fn_invoked (Rejected err)], s1)
          else (Pending, [Fn_invoked (Rejected err), Cb_invoked err], g err s1)
      | (settled, s1) \<Rightarrow> (settled, [Fn_invoked settled], s1))
   \<and> main (with_compensation_outcomes env status removal) = main env"
proof
  show "retryPromiseIfNeeded fn (Some (\<lambda>err s. (Threw, g err s))) maxTries s =
     (case fn s of
        (Rejected err, s1) \<Rightarrow>
          if (case maxTries of None \<Rightarrow> 5 | Some n \<Rightarrow> n) \<le> 1
          then (Rejected err, [Fn_invoked (Rejected err)], s1)
          else (Pending, [Fn_invoked (Rejected err), Cb_invoked err], g err s1)
      | (settled, s1) \<Rightarrow> (settled, [Fn_invoked settled], s1))"
    unfolding retryPromiseIfNeeded_def
    by (subst attemptPromise.simps)
      (simp add: call_failedAttemptCb_def split: prod.splits promise.splits option.splits)
  show "main (with_compensation_outcomes env status removal) = main env"
    by (rule main_same)
qed




end
